theory Spec2Isabelle
  imports Complex_Main
begin

section \<open>The unified controller: OpenFlow messages\<close>

text \<open>
  The model follows \<^verbatim>\<open>controller/Controller_UnifiedController.py\<close>. Python integers are
  \<^typ>\<open>int\<close>. Python floats (clock readings and bit rates) are idealised as \<^typ>\<open>real\<close>:
  rounding is not modelled, every comparison and branch of the source is.
\<close>

type_synonym dpid = int
type_synonym port_no = int
type_synonym mac = string

text \<open>Constants of the OpenFlow 1.3 wire protocol, as \<^verbatim>\<open>ryu.ofproto.ofproto_v1_3\<close> names them.\<close>

definition OFPP_NORMAL :: int where "OFPP_NORMAL = 0xfffffffa"
definition OFPP_FLOOD :: int where "OFPP_FLOOD = 0xfffffffb"
definition OFPP_CONTROLLER :: int where "OFPP_CONTROLLER = 0xfffffffd"
definition OFPP_ANY :: int where "OFPP_ANY = 0xffffffff"
definition OFPCML_NO_BUFFER :: int where "OFPCML_NO_BUFFER = 0xffff"
definition OFP_NO_BUFFER :: int where "OFP_NO_BUFFER = 0xffffffff"
definition OFPIT_APPLY_ACTIONS :: int where "OFPIT_APPLY_ACTIONS = 4"
definition OFPMC_ADD :: int where "OFPMC_ADD = 0"
definition OFPMF_KBPS :: int where "OFPMF_KBPS = 1"
definition ETH_TYPE_LLDP :: int where "ETH_TYPE_LLDP = 0x88cc"

text \<open>Module constants of the controller.\<close>

definition ACT_NOOP :: int where "ACT_NOOP = 0"
definition ACT_METER :: int where "ACT_METER = 1"
definition ACT_DROP :: int where "ACT_DROP = 2"
definition ACT_REROUTE :: int where "ACT_REROUTE = 3"
definition DEFAULT_LIMIT_KBPS :: int where "DEFAULT_LIMIT_KBPS = 5000"
definition DEFAULT_IDLE_TO :: int where "DEFAULT_IDLE_TO = 20"

text \<open>
  \<^verbatim>\<open>OFPMatch(in_port=.., eth_dst=.., eth_src=..)\<close>: a field that is not given is absent.
\<close>

record of_match =
  m_in_port :: "int option"
  m_eth_dst :: "mac option"
  m_eth_src :: "mac option"

definition OFPMatch :: of_match where
  "OFPMatch = \<lparr>m_in_port = None, m_eth_dst = None, m_eth_src = None\<rparr>"

text \<open>\<^verbatim>\<open>OFPActionOutput(port, max_len)\<close>; \<open>None\<close> is the library's default \<^verbatim>\<open>max_len\<close>.\<close>

datatype of_action = OFPActionOutput int "int option"

datatype instruction =
    OFPInstructionMeter int
  | OFPInstructionActions int "of_action list"

record flow_mod =
  fm_priority :: int
  fm_match :: of_match
  fm_instructions :: "instruction list"
  fm_idle_timeout :: int
  fm_hard_timeout :: int

datatype meter_band = OFPMeterBandDrop int int

record meter_mod =
  mm_command :: int
  mm_flags :: int
  mm_meter_id :: int
  mm_bands :: "meter_band list"

record packet_out =
  po_buffer_id :: int
  po_in_port :: int
  po_actions :: "of_action list"
  po_data :: "nat list option"

datatype of_msg =
    OFPFlowMod flow_mod
  | OFPMeterMod meter_mod
  | OFPPacketOut packet_out
  | OFPPortStatsRequest int int

text \<open>A mutation is a flow or a meter message; packet-outs and stats requests are not.\<close>

fun is_flow_mod :: "of_msg \<Rightarrow> bool" where
  "is_flow_mod (OFPFlowMod _) = True"
| "is_flow_mod _ = False"

fun is_meter_mod :: "of_msg \<Rightarrow> bool" where
  "is_meter_mod (OFPMeterMod _) = True"
| "is_meter_mod _ = False"

definition is_mutation :: "of_msg \<Rightarrow> bool" where
  "is_mutation m = (is_flow_mod m \<or> is_meter_mod m)"

text \<open>The priority of a flow message; other messages have none.\<close>

fun flow_priority :: "of_msg \<Rightarrow> int option" where
  "flow_priority (OFPFlowMod f) = Some (fm_priority f)"
| "flow_priority _ = None"

section \<open>Switch handles, exceptions, controller state\<close>

datatype py_exception = IndexError | PyException string

text \<open>
  The switch handle (Ryu's \<^verbatim>\<open>Datapath\<close>): its identifier, and what \<^verbatim>\<open>dp.send_msg(m)\<close> does
  for a message: \<open>None\<close> when the call returns, \<open>Some e\<close> when it raises \<open>e\<close>.
\<close>

record datapath =
  dp_id :: dpid
  dp_send :: "of_msg \<Rightarrow> py_exception option"

text \<open>The dictionary \<^verbatim>\<open>cur\<close> of the stats-reply handler.\<close>

record sample =
  timestamp :: real
  s_dpid :: dpid
  s_port_no :: port_no
  rx_bytes :: int
  tx_bytes :: int
  rx_packets :: int
  tx_packets :: int
  duration_sec :: int

text \<open>One entry of a port-stats reply; \<^verbatim>\<open>getattr(stat, .., 0)\<close> reads the optional fields.\<close>

record port_stats =
  ps_port_no :: port_no
  ps_rx_bytes :: int
  ps_tx_bytes :: int
  ps_rx_packets :: "int option"
  ps_tx_packets :: "int option"
  ps_duration_sec :: "int option"

datatype log_record =
    LogSwitchConnected dpid
  | LogAgentAction dpid port_no real real int
  | LogEnforceError dpid port_no py_exception
  | LogWriteFailed
  | LogMeterFlow dpid port_no int int
  | LogDrop dpid port_no int
  | LogReroute dpid port_no
  | LogMeterCreated dpid int int

text \<open>
  The controller object. The first four fields are the attributes set in \<^verbatim>\<open>__init__\<close>;
  the others record what the controller did to the outside: the messages that a handle
  accepted (with the handle's identifier), the log records, the calls of the agent, and
  the rows appended to the CSV file.
\<close>

record controller =
  mac_to_port :: "dpid \<rightharpoonup> (mac \<rightharpoonup> port_no)"
  datapaths :: "dpid \<rightharpoonup> datapath"
  last_stats :: "(dpid \<times> port_no) \<rightharpoonup> sample"
  meter_installed :: "(dpid \<times> int) set"
  sent :: "(dpid \<times> of_msg) list"
  logged :: "log_record list"
  agent_calls :: "(dpid \<times> port_no \<times> real \<times> real) list"
  stats_csv :: "sample list"

definition init_controller :: controller where
  "init_controller = \<lparr>mac_to_port = Map.empty, datapaths = Map.empty,
     last_stats = Map.empty, meter_installed = {}, sent = [], logged = [],
     agent_calls = [], stats_csv = []\<rparr>"

type_synonym 'a result = "(py_exception + 'a) \<times> controller"

text \<open>\<^verbatim>\<open>dp.send_msg(m)\<close>: the message is on the wire, or the call raises and nothing is sent.\<close>

definition send_msg :: "controller \<Rightarrow> datapath \<Rightarrow> of_msg \<Rightarrow> unit result" where
  "send_msg s dp m =
     (case dp_send dp m of
        None \<Rightarrow> (Inr (), s\<lparr>sent := sent s @ [(dp_id dp, m)]\<rparr>)
      | Some e \<Rightarrow> (Inl e, s))"

text \<open>The messages that the handles accepted between two states of the controller.\<close>

definition emitted :: "controller \<Rightarrow> controller \<Rightarrow> (dpid \<times> of_msg) list" where
  "emitted s s' = drop (length (sent s)) (sent s')"

definition log_info :: "controller \<Rightarrow> log_record \<Rightarrow> controller" where
  "log_info s r = s\<lparr>logged := logged s @ [r]\<rparr>"

section \<open>Switch connect, table miss, state change\<close>

text \<open>
  \<^verbatim>\<open>OFPFlowMod(datapath=dp, priority=0, match=match, instructions=inst)\<close>: the timeouts
  are not given and take the constructor's default, zero.
\<close>

definition table_miss_flow :: of_msg where
  "table_miss_flow = OFPFlowMod \<lparr>fm_priority = 0, fm_match = OFPMatch,
     fm_instructions = [OFPInstructionActions OFPIT_APPLY_ACTIONS
        [OFPActionOutput OFPP_CONTROLLER (Some OFPCML_NO_BUFFER)]],
     fm_idle_timeout = 0, fm_hard_timeout = 0\<rparr>"

definition install_table_miss :: "controller \<Rightarrow> datapath \<Rightarrow> unit result" where
  "install_table_miss s dp = send_msg s dp table_miss_flow"

definition switch_features_handler :: "controller \<Rightarrow> datapath \<Rightarrow> unit result" where
  "switch_features_handler s dp =
     (let s1 = log_info s (LogSwitchConnected (dp_id dp));
          s2 = s1\<lparr>datapaths := (datapaths s1)(dp_id dp \<mapsto> dp)\<rparr>
      in install_table_miss s2 dp)"

datatype dispatcher = CONFIG_DISPATCHER | MAIN_DISPATCHER | DEAD_DISPATCHER

fun state_change_handler :: "controller \<Rightarrow> datapath \<Rightarrow> dispatcher \<Rightarrow> controller" where
  "state_change_handler s dp MAIN_DISPATCHER =
     s\<lparr>datapaths := (datapaths s)(dp_id dp \<mapsto> dp)\<rparr>"
| "state_change_handler s dp DEAD_DISPATCHER =
     s\<lparr>datapaths := (datapaths s)(dp_id dp := None)\<rparr>"
| "state_change_handler s dp CONFIG_DISPATCHER = s"

section \<open>Learning switch\<close>

record ethernet =
  eth_dst :: mac
  eth_src :: mac
  ethertype :: int

text \<open>
  A packet-in message: the handle, the raw frame, the ethernet headers that
  \<^verbatim>\<open>pkt.get_protocols(ethernet.ethernet)\<close> finds in it, the ingress port and the buffer.
\<close>

record packet_in =
  pi_datapath :: datapath
  pi_data :: "nat list"
  pi_eths :: "ethernet list"
  pi_in_port :: port_no
  pi_buffer_id :: int

definition unicast_flow :: "port_no \<Rightarrow> mac \<Rightarrow> mac \<Rightarrow> of_action list \<Rightarrow> of_msg" where
  "unicast_flow in_port dst src actions = OFPFlowMod \<lparr>fm_priority = 1,
     fm_match = \<lparr>m_in_port = Some in_port, m_eth_dst = Some dst, m_eth_src = Some src\<rparr>,
     fm_instructions = [OFPInstructionActions OFPIT_APPLY_ACTIONS actions],
     fm_idle_timeout = 60, fm_hard_timeout = 0\<rparr>"

definition packet_out_msg :: "packet_in \<Rightarrow> of_action list \<Rightarrow> of_msg" where
  "packet_out_msg msg actions = OFPPacketOut \<lparr>po_buffer_id = pi_buffer_id msg,
     po_in_port = pi_in_port msg, po_actions = actions,
     po_data = (if pi_buffer_id msg \<noteq> OFP_NO_BUFFER then None else Some (pi_data msg))\<rparr>"

definition packet_in_handler :: "controller \<Rightarrow> packet_in \<Rightarrow> unit result" where
  "packet_in_handler s msg =
     (let dp = pi_datapath msg; dpid = dp_id dp in
      case pi_eths msg of
        [] \<Rightarrow> (Inl IndexError, s)
      | eth # _ \<Rightarrow>
          if ethertype eth = ETH_TYPE_LLDP then (Inr (), s)
          else
            let in_port = pi_in_port msg; dst = eth_dst eth; src = eth_src eth;
                tbl = (case mac_to_port s dpid of None \<Rightarrow> Map.empty | Some t \<Rightarrow> t);
                tbl' = tbl(src \<mapsto> in_port);
                s1 = s\<lparr>mac_to_port := (mac_to_port s)(dpid \<mapsto> tbl')\<rparr>;
                out_port = (case tbl' dst of Some p \<Rightarrow> p | None \<Rightarrow> OFPP_FLOOD);
                actions = [OFPActionOutput out_port None]
            in (case (if out_port = OFPP_FLOOD then (Inr (), s1)
                      else send_msg s1 dp (unicast_flow in_port dst src actions)) of
                  (Inl e, s2) \<Rightarrow> (Inl e, s2)
                | (Inr _, s2) \<Rightarrow> send_msg s2 dp (packet_out_msg msg actions)))"

section \<open>Enforcement\<close>

definition meter_add :: "int \<Rightarrow> int \<Rightarrow> of_msg" where
  "meter_add meter_id rate_kbps = OFPMeterMod \<lparr>mm_command = OFPMC_ADD, mm_flags = OFPMF_KBPS,
     mm_meter_id = meter_id, mm_bands = [OFPMeterBandDrop rate_kbps 0]\<rparr>"

definition ensure_meter :: "controller \<Rightarrow> datapath \<Rightarrow> int \<Rightarrow> int \<Rightarrow> unit result" where
  "ensure_meter s dp meter_id rate_kbps =
     (let key = (dp_id dp, meter_id) in
      if key \<in> meter_installed s then (Inr (), s)
      else
        case send_msg s dp (meter_add meter_id rate_kbps) of
          (Inl e, s1) \<Rightarrow> (Inl e, s1)
        | (Inr _, s1) \<Rightarrow>
            (Inr (), log_info (s1\<lparr>meter_installed := insert key (meter_installed s1)\<rparr>)
                       (LogMeterCreated (dp_id dp) meter_id rate_kbps)))"

definition meter_flow :: "port_no \<Rightarrow> int \<Rightarrow> of_msg" where
  "meter_flow in_port meter_id = OFPFlowMod \<lparr>fm_priority = 300,
     fm_match = OFPMatch\<lparr>m_in_port := Some in_port\<rparr>,
     fm_instructions = [OFPInstructionMeter meter_id,
        OFPInstructionActions OFPIT_APPLY_ACTIONS [OFPActionOutput OFPP_NORMAL None]],
     fm_idle_timeout = DEFAULT_IDLE_TO, fm_hard_timeout = 0\<rparr>"

definition drop_flow :: "port_no \<Rightarrow> of_msg" where
  "drop_flow in_port = OFPFlowMod \<lparr>fm_priority = 400,
     fm_match = OFPMatch\<lparr>m_in_port := Some in_port\<rparr>,
     fm_instructions = [],
     fm_idle_timeout = DEFAULT_IDLE_TO, fm_hard_timeout = 0\<rparr>"

definition reroute_flow :: "port_no \<Rightarrow> of_msg" where
  "reroute_flow in_port = OFPFlowMod \<lparr>fm_priority = 200,
     fm_match = OFPMatch\<lparr>m_in_port := Some in_port\<rparr>,
     fm_instructions =
       [OFPInstructionActions OFPIT_APPLY_ACTIONS [OFPActionOutput OFPP_FLOOD None]],
     fm_idle_timeout = DEFAULT_IDLE_TO, fm_hard_timeout = 0\<rparr>"

text \<open>\<^verbatim>\<open>meter_id = 1000 + int(in_port)\<close>\<close>

definition meter_id_of :: "port_no \<Rightarrow> int" where
  "meter_id_of in_port = 1000 + in_port"

definition enforce_action :: "controller \<Rightarrow> datapath \<Rightarrow> port_no \<Rightarrow> int \<Rightarrow> unit result" where
  "enforce_action s dp in_port action_id =
     (if action_id = 0 then (Inr (), s)
      else if action_id = 1 then
        (let meter_id = meter_id_of in_port in
         case ensure_meter s dp meter_id DEFAULT_LIMIT_KBPS of
           (Inl e, s1) \<Rightarrow> (Inl e, s1)
         | (Inr _, s1) \<Rightarrow>
             (case send_msg s1 dp (meter_flow in_port meter_id) of
                (Inl e, s2) \<Rightarrow> (Inl e, s2)
              | (Inr _, s2) \<Rightarrow>
                  (Inr (), log_info s2
                     (LogMeterFlow (dp_id dp) in_port meter_id DEFAULT_LIMIT_KBPS))))
      else if action_id = 2 then
        (case send_msg s dp (drop_flow in_port) of
           (Inl e, s1) \<Rightarrow> (Inl e, s1)
         | (Inr _, s1) \<Rightarrow> (Inr (), log_info s1 (LogDrop (dp_id dp) in_port DEFAULT_IDLE_TO)))
      else if action_id = 3 then
        (case send_msg s dp (reroute_flow in_port) of
           (Inl e, s1) \<Rightarrow> (Inl e, s1)
         | (Inr _, s1) \<Rightarrow> (Inr (), log_info s1 (LogReroute (dp_id dp) in_port)))
      else (Inr (), s))"

section \<open>The agent\<close>

text \<open>
  \<^verbatim>\<open>AgentManager._normalize\<close> and \<^verbatim>\<open>AgentManager.act\<close>. The network behind
  \<^verbatim>\<open>DQNAgent.act(state, explore=False)\<close> is a parameter: a function from the normalised
  observation to an action identifier. The call is taken to return; an exception of the
  network is not modelled.
\<close>

type_synonym qnet = "real \<times> real \<times> real \<times> real \<Rightarrow> int"

definition normalize :: "dpid \<Rightarrow> port_no \<Rightarrow> real \<Rightarrow> real \<Rightarrow> real \<times> real \<times> real \<times> real" where
  "normalize dpid port tx_bps rx_bps =
     (let SCALE = 100000000 in
      (max 0 (min 1 (tx_bps / SCALE)), max 0 (min 1 (rx_bps / SCALE)),
       min 1 (real_of_int dpid / 100), min 1 (real_of_int port / 100)))"

definition act :: "qnet \<Rightarrow> dpid \<Rightarrow> port_no \<Rightarrow> real \<Rightarrow> real \<Rightarrow> int" where
  "act q dpid port tx_bps rx_bps = q (normalize dpid port tx_bps rx_bps)"

section \<open>Stats polling\<close>

text \<open>\<^verbatim>\<open>_request_port_stats\<close>: \<^verbatim>\<open>OFPPortStatsRequest(dp, 0, dp.ofproto.OFPP_ANY)\<close>.\<close>

definition request_port_stats :: "controller \<Rightarrow> datapath \<Rightarrow> unit result" where
  "request_port_stats s dp = send_msg s dp (OFPPortStatsRequest 0 OFPP_ANY)"

definition cur_sample :: "real \<Rightarrow> dpid \<Rightarrow> port_stats \<Rightarrow> sample" where
  "cur_sample now dpid stat = \<lparr>timestamp = now, s_dpid = dpid, s_port_no = ps_port_no stat,
     rx_bytes = ps_rx_bytes stat, tx_bytes = ps_tx_bytes stat,
     rx_packets = (case ps_rx_packets stat of None \<Rightarrow> 0 | Some n \<Rightarrow> n),
     tx_packets = (case ps_tx_packets stat of None \<Rightarrow> 0 | Some n \<Rightarrow> n),
     duration_sec = (case ps_duration_sec stat of None \<Rightarrow> 0 | Some n \<Rightarrow> n)\<rparr>"

text \<open>The rates of lines 193 to 198: \<^verbatim>\<open>dt = max(1e-9, now - prev['timestamp'])\<close>.\<close>

definition interval_dt :: "real \<Rightarrow> sample \<Rightarrow> real" where
  "interval_dt now prev = max (1 / 1000000000) (now - timestamp prev)"

definition bps :: "int \<Rightarrow> real \<Rightarrow> real" where
  "bps d dt = (real_of_int d * 8) / dt"

text \<open>
  Lines 203 to 206: \<^verbatim>\<open>try: self._enforce_action(dp, port_no, action)\<close> with
  \<^verbatim>\<open>except Exception as e\<close>, which logs the switch, the port and the exception.
\<close>

definition try_enforce :: "controller \<Rightarrow> datapath \<Rightarrow> port_no \<Rightarrow> int \<Rightarrow> controller" where
  "try_enforce s dp port action =
     (case enforce_action s dp port action of
        (Inr _, s') \<Rightarrow> s'
      | (Inl e, s') \<Rightarrow> log_info s' (LogEnforceError (dp_id dp) port e))"

text \<open>A recorded call of the agent has no negative rate.\<close>

definition rates_nonneg :: "dpid \<times> port_no \<times> real \<times> real \<Rightarrow> bool" where
  "rates_nonneg c = (case c of (dpid, port, tx_bps, rx_bps) \<Rightarrow> 0 \<le> tx_bps \<and> 0 \<le> rx_bps)"

text \<open>The body of the loop \<^verbatim>\<open>for stat in ev.msg.body\<close> (lines 173 to 208), without the row.\<close>

definition stats_step :: "qnet \<Rightarrow> real \<Rightarrow> datapath \<Rightarrow> controller \<Rightarrow> port_stats \<Rightarrow> controller" where
  "stats_step q now dp s stat =
     (let dpid = dp_id dp; port = ps_port_no stat; key = (dpid, port);
          cur = cur_sample now dpid stat;
          s' = (case last_stats s key of
                  None \<Rightarrow> s
                | Some prev \<Rightarrow>
                    let dt = interval_dt now prev;
                        d_tx = tx_bytes cur - tx_bytes prev;
                        d_rx = rx_bytes cur - rx_bytes prev
                    in if d_tx \<ge> 0 \<and> d_rx \<ge> 0 then
                         let tx_bps = bps d_tx dt; rx_bps = bps d_rx dt;
                             action = act q dpid port tx_bps rx_bps;
                             s1 = s\<lparr>agent_calls := agent_calls s @ [(dpid, port, tx_bps, rx_bps)]\<rparr>;
                             s2 = log_info s1 (LogAgentAction dpid port tx_bps rx_bps action)
                         in try_enforce s2 dp port action
                       else s)
      in s'\<lparr>last_stats := (last_stats s')(key \<mapsto> cur)\<rparr>)"

text \<open>
  A port-stats reply as the handler sees it: the handle and the body of the message, the
  reading of \<^verbatim>\<open>time.time()\<close> at entry, and whether the CSV file can be opened for append.
\<close>

record stats_reply =
  sr_datapath :: datapath
  sr_body :: "port_stats list"
  sr_now :: real
  sr_csv_ok :: bool

definition port_stats_reply_handler :: "qnet \<Rightarrow> controller \<Rightarrow> stats_reply \<Rightarrow> controller" where
  "port_stats_reply_handler q s ev =
     (let now = sr_now ev; dp = sr_datapath ev;
          rows = map (cur_sample now (dp_id dp)) (sr_body ev);
          s1 = foldl (stats_step q now dp) s (sr_body ev)
      in if sr_csv_ok ev then s1\<lparr>stats_csv := stats_csv s1 @ rows\<rparr>
         else log_info s1 LogWriteFailed)"

section \<open>The offline feature computation\<close>

text \<open>
  \<^verbatim>\<open>tools/parse_logs.py\<close>, \<^verbatim>\<open>compute_features\<close>: the loop over one group of rows (the rows
  of one port of one switch, already sorted by time), lines 77 to 111. \<open>prev\<close> is \<open>None\<close>
  before the first row.
\<close>

record log_row =
  lr_timestamp :: real
  lr_dpid :: int
  lr_port_no :: int
  lr_rx_bytes :: int
  lr_tx_bytes :: int
  lr_rx_packets :: int
  lr_tx_packets :: int

record feature =
  f_timestamp :: real
  f_dpid :: int
  f_port_no :: int
  f_tx_bps :: real
  f_rx_bps :: real
  f_tx_pps :: real
  f_rx_pps :: real

fun group_features :: "log_row option \<Rightarrow> log_row list \<Rightarrow> feature list" where
  "group_features prev [] = []"
| "group_features None (cur # rest) = group_features (Some cur) rest"
| "group_features (Some prev) (cur # rest) =
     (let dt = lr_timestamp cur - lr_timestamp prev in
      if dt \<le> 0 then group_features (Some cur) rest
      else
        let d_tx_bytes = lr_tx_bytes cur - lr_tx_bytes prev;
            d_rx_bytes = lr_rx_bytes cur - lr_rx_bytes prev;
            d_tx_pkts = lr_tx_packets cur - lr_tx_packets prev;
            d_rx_pkts = lr_rx_packets cur - lr_rx_packets prev
        in if d_tx_bytes < 0 \<or> d_rx_bytes < 0 \<or> d_tx_pkts < 0 \<or> d_rx_pkts < 0
           then group_features (Some cur) rest
           else \<lparr>f_timestamp = lr_timestamp cur, f_dpid = lr_dpid cur, f_port_no = lr_port_no cur,
                  f_tx_bps = (real_of_int d_tx_bytes * 8) / dt,
                  f_rx_bps = (real_of_int d_rx_bytes * 8) / dt,
                  f_tx_pps = real_of_int d_tx_pkts / dt,
                  f_rx_pps = real_of_int d_rx_pkts / dt\<rparr> # group_features (Some cur) rest)"

section \<open>Concrete runs\<close>

text \<open>
  Handles with identifier 1: one whose \<^verbatim>\<open>send_msg\<close> always returns, one that raises on every
  flow message, one that raises on every message.
\<close>

definition ex_dp :: datapath where
  "ex_dp = \<lparr>dp_id = 1, dp_send = (\<lambda>m. None)\<rparr>"

definition ex_dp_noflow :: datapath where
  "ex_dp_noflow = \<lparr>dp_id = 1,
     dp_send = (\<lambda>m. if is_flow_mod m then Some (PyException ''flow rejected'') else None)\<rparr>"


text \<open>An agent that answers every observation with the same action.\<close>

definition always :: "int \<Rightarrow> qnet" where
  "always a = (\<lambda>obs. a)"

text \<open>Port 3 with the given byte counters, and a reply that holds this one entry.\<close>

definition ex_stat :: "int \<Rightarrow> int \<Rightarrow> port_stats" where
  "ex_stat rx tx = \<lparr>ps_port_no = 3, ps_rx_bytes = rx, ps_tx_bytes = tx,
     ps_rx_packets = Some 0, ps_tx_packets = Some 0, ps_duration_sec = Some 0\<rparr>"

definition ex_reply :: "datapath \<Rightarrow> real \<Rightarrow> port_stats \<Rightarrow> stats_reply" where
  "ex_reply dp now stat = \<lparr>sr_datapath = dp, sr_body = [stat], sr_now = now, sr_csv_ok = True\<rparr>"

definition ex_pkt :: packet_in where
  "ex_pkt = \<lparr>pi_datapath = ex_dp, pi_data = [], 
     pi_eths = [\<lparr>eth_dst = ''00:00:00:00:00:02'', eth_src = ''00:00:00:00:00:01'',
                 ethertype = 0x0800\<rparr>],
     pi_in_port = 3, pi_buffer_id = OFP_NO_BUFFER\<rparr>"

text \<open>A frame that arrives on port 4 of switch 1 for the address learned on port 3.\<close>

definition ex_pkt_back :: packet_in where
  "ex_pkt_back = \<lparr>pi_datapath = ex_dp, pi_data = [],
     pi_eths = [\<lparr>eth_dst = ''00:00:00:00:00:01'', eth_src = ''00:00:00:00:00:02'',
                 ethertype = 0x0800\<rparr>],
     pi_in_port = 4, pi_buffer_id = OFP_NO_BUFFER\<rparr>"

text \<open>
  Switch 1 connects and reaches the main state; a frame from port 3 is learned; the first
  sample of port 3 is taken at time 0 with \<open>rx = 1000\<close>, \<open>tx = 2000\<close>; at time 1 the
  counters are 9000 and 10000 and the agent answers with the meter; then the switch dies.
\<close>

definition ex_connected :: controller where
  "ex_connected =
     state_change_handler (snd (switch_features_handler init_controller ex_dp)) ex_dp
       MAIN_DISPATCHER"

definition ex_learned :: controller where
  "ex_learned = snd (packet_in_handler ex_connected ex_pkt)"

definition ex_sampled :: controller where
  "ex_sampled =
     port_stats_reply_handler (always ACT_METER) ex_learned (ex_reply ex_dp 0 (ex_stat 1000 2000))"

definition ex_limited :: controller where
  "ex_limited =
     port_stats_reply_handler (always ACT_METER) ex_sampled (ex_reply ex_dp 1 (ex_stat 9000 10000))"

definition ex_dead :: controller where
  "ex_dead = state_change_handler ex_limited ex_dp DEAD_DISPATCHER"

section \<open>What enforcement leaves alone\<close>

lemma send_msg_frame:
  "agent_calls (snd (send_msg s dp m)) = agent_calls s"
  "last_stats (snd (send_msg s dp m)) = last_stats s"
  "mac_to_port (snd (send_msg s dp m)) = mac_to_port s"
  "datapaths (snd (send_msg s dp m)) = datapaths s"
  "stats_csv (snd (send_msg s dp m)) = stats_csv s"
  "logged (snd (send_msg s dp m)) = logged s"
  "meter_installed (snd (send_msg s dp m)) = meter_installed s"
  by (simp_all add: send_msg_def split: option.splits)

lemma ensure_meter_frame:
  "agent_calls (snd (ensure_meter s dp mid rate)) = agent_calls s"
  "last_stats (snd (ensure_meter s dp mid rate)) = last_stats s"
  "mac_to_port (snd (ensure_meter s dp mid rate)) = mac_to_port s"
  "datapaths (snd (ensure_meter s dp mid rate)) = datapaths s"
  "stats_csv (snd (ensure_meter s dp mid rate)) = stats_csv s"
  by (simp_all add: ensure_meter_def send_msg_def log_info_def Let_def split: option.splits)

lemma enforce_action_frame:
  "agent_calls (snd (enforce_action s dp p a)) = agent_calls s"
  "last_stats (snd (enforce_action s dp p a)) = last_stats s"
  "mac_to_port (snd (enforce_action s dp p a)) = mac_to_port s"
  "datapaths (snd (enforce_action s dp p a)) = datapaths s"
  "stats_csv (snd (enforce_action s dp p a)) = stats_csv s"
  by (simp_all add: enforce_action_def ensure_meter_def send_msg_def log_info_def Let_def
      split: option.splits)

lemma try_enforce_frame:
  "agent_calls (try_enforce s dp p a) = agent_calls s"
  "last_stats (try_enforce s dp p a) = last_stats s"
  "mac_to_port (try_enforce s dp p a) = mac_to_port s"
  "datapaths (try_enforce s dp p a) = datapaths s"
  "stats_csv (try_enforce s dp p a) = stats_csv s"
  using enforce_action_frame[of s dp p a]
  by (cases "enforce_action s dp p a"; simp add: try_enforce_def log_info_def split: sum.splits)+

lemma interval_dt_pos: "0 < interval_dt now prev"
  by (simp add: interval_dt_def max_def)

lemma bps_nonneg: "0 \<le> d \<Longrightarrow> 0 < dt \<Longrightarrow> 0 \<le> bps d dt"
  by (simp add: bps_def)


lemma stats_step_calls_nonneg:
  "list_all rates_nonneg (agent_calls s) \<Longrightarrow>
     list_all rates_nonneg (agent_calls (stats_step q now dp s st))"
  by (simp add: stats_step_def Let_def try_enforce_frame log_info_def rates_nonneg_def
      bps_nonneg interval_dt_pos split: option.splits)

lemma stats_loop_calls_nonneg:
  "list_all rates_nonneg (agent_calls s) \<Longrightarrow>
     list_all rates_nonneg (agent_calls (foldl (stats_step q now dp) s body))"
  by (induction body arbitrary: s) (simp_all add: stats_step_calls_nonneg)

lemma handler_calls_nonneg:
  "list_all rates_nonneg (agent_calls s) \<Longrightarrow>
     list_all rates_nonneg (agent_calls (port_stats_reply_handler q s ev))"
  by (simp add: port_stats_reply_handler_def Let_def log_info_def stats_loop_calls_nonneg)

section \<open>One round of the poller for one port\<close>

lemma stats_step_first:
  "last_stats s (dp_id dp, ps_port_no st) = None \<Longrightarrow>
     stats_step q now dp s st =
       s\<lparr>last_stats := (last_stats s)((dp_id dp, ps_port_no st) \<mapsto> cur_sample now (dp_id dp) st)\<rparr>"
  by (simp add: stats_step_def Let_def)

lemma stats_step_reset:
  "last_stats s (dp_id dp, ps_port_no st) = Some prev \<Longrightarrow>
   ps_tx_bytes st < tx_bytes prev \<or> ps_rx_bytes st < rx_bytes prev \<Longrightarrow>
     stats_step q now dp s st =
       s\<lparr>last_stats := (last_stats s)((dp_id dp, ps_port_no st) \<mapsto> cur_sample now (dp_id dp) st)\<rparr>"
  by (auto simp add: stats_step_def Let_def cur_sample_def)


section \<open>The concrete runs, evaluated\<close>

lemma ex_learned_fields:
  "last_stats ex_learned = Map.empty"
  "meter_installed ex_learned = {}"
  "agent_calls ex_learned = []"
  "datapaths ex_learned 1 = Some ex_dp"
  "mac_to_port ex_learned 1 = Some [''00:00:00:00:00:01'' \<mapsto> 3]"
  "sent ex_learned = [(1, table_miss_flow),
      (1, packet_out_msg ex_pkt [OFPActionOutput OFPP_FLOOD None])]"
  by (simp_all add: ex_learned_def ex_connected_def ex_pkt_def ex_dp_def init_controller_def
      packet_in_handler_def switch_features_handler_def install_table_miss_def send_msg_def
      log_info_def ETH_TYPE_LLDP_def Let_def)

lemma ex_sampled_eq:
  "ex_sampled = ex_learned\<lparr>last_stats := [(1, 3) \<mapsto> cur_sample 0 1 (ex_stat 1000 2000)],
      stats_csv := stats_csv ex_learned @ [cur_sample 0 1 (ex_stat 1000 2000)]\<rparr>"
  by (simp add: ex_sampled_def port_stats_reply_handler_def ex_reply_def Let_def
      stats_step_first ex_learned_fields ex_dp_def ex_stat_def)

lemma ex_sampled_fields:
  "last_stats ex_sampled (1, 3) = Some (cur_sample 0 1 (ex_stat 1000 2000))"
  "meter_installed ex_sampled = {}"
  "agent_calls ex_sampled = []"
  "datapaths ex_sampled 1 = Some ex_dp"
  "sent ex_sampled = sent ex_learned"
  "logged ex_sampled = logged ex_learned"
  by (simp_all add: ex_sampled_eq ex_learned_fields)

lemma ex_limited_fields:
  "last_stats ex_limited (1, 3) = Some (cur_sample 1 1 (ex_stat 9000 10000))"
  "meter_installed ex_limited = {(1, 1003)}"
  "sent ex_limited = sent ex_learned @ [(1, meter_add 1003 5000), (1, meter_flow 3 1003)]"
  "agent_calls ex_limited = [(1, 3, 64000, 64000)]"
  "datapaths ex_limited 1 = Some ex_dp"
  "mac_to_port ex_limited 1 = Some [''00:00:00:00:00:01'' \<mapsto> 3]"
  by (simp_all add: ex_limited_def ex_sampled_fields ex_learned_fields
      port_stats_reply_handler_def ex_reply_def
      stats_step_def try_enforce_def enforce_action_def ensure_meter_def send_msg_def
      log_info_def Let_def interval_dt_def bps_def act_def always_def ACT_METER_def
      meter_id_of_def DEFAULT_LIMIT_KBPS_def ex_dp_def ex_stat_def cur_sample_def ex_sampled_eq)

lemma ex_dead_fields:
  "datapaths ex_dead 1 = None"
  "mac_to_port ex_dead 1 = Some [''00:00:00:00:00:01'' \<mapsto> 3]"
  "last_stats ex_dead (1, 3) = Some (cur_sample 1 1 (ex_stat 9000 10000))"
  "meter_installed ex_dead = {(1, 1003)}"
  "sent ex_dead = sent ex_learned @ [(1, meter_add 1003 5000), (1, meter_flow 3 1003)]"
  by (simp_all add: ex_dead_def ex_limited_fields ex_dp_def)

text \<open>The registry of connections plays no part in polling and enforcement.\<close>

lemma datapaths_outwards:
  "(s\<lparr>datapaths := d\<rparr>)\<lparr>agent_calls := X\<rparr> = (s\<lparr>agent_calls := X\<rparr>)\<lparr>datapaths := d\<rparr>"
  "(s\<lparr>datapaths := d\<rparr>)\<lparr>last_stats := Y\<rparr> = (s\<lparr>last_stats := Y\<rparr>)\<lparr>datapaths := d\<rparr>"
  "(s\<lparr>datapaths := d\<rparr>)\<lparr>stats_csv := Z\<rparr> = (s\<lparr>stats_csv := Z\<rparr>)\<lparr>datapaths := d\<rparr>"
  "log_info (s\<lparr>datapaths := d\<rparr>) r = (log_info s r)\<lparr>datapaths := d\<rparr>"
  by (simp_all add: log_info_def)

lemma enforce_action_registry:
  "enforce_action (s\<lparr>datapaths := d\<rparr>) dp p a =
     (fst (enforce_action s dp p a), (snd (enforce_action s dp p a))\<lparr>datapaths := d\<rparr>)"
  by (simp add: enforce_action_def ensure_meter_def send_msg_def log_info_def Let_def
      split: option.splits)

lemma try_enforce_registry:
  "try_enforce (s\<lparr>datapaths := d\<rparr>) dp p a = (try_enforce s dp p a)\<lparr>datapaths := d\<rparr>"
  by (cases "enforce_action s dp p a"; cases "fst (enforce_action s dp p a)")
     (simp_all add: try_enforce_def enforce_action_registry datapaths_outwards)

lemma stats_step_registry:
  "stats_step q now dp (s\<lparr>datapaths := d\<rparr>) st = (stats_step q now dp s st)\<lparr>datapaths := d\<rparr>"
  by (simp add: stats_step_def try_enforce_registry datapaths_outwards Let_def split: option.splits)

lemma stats_loop_registry:
  "foldl (stats_step q now dp) (s\<lparr>datapaths := d\<rparr>) body =
     (foldl (stats_step q now dp) s body)\<lparr>datapaths := d\<rparr>"
  by (induction body arbitrary: s) (simp_all add: stats_step_registry)

section \<open>What enforcement sends\<close>

lemma emitted_append: "sent s' = sent s @ xs \<Longrightarrow> emitted s s' = xs"
  by (simp add: emitted_def)

lemma send_msg_sent:
  "sent (snd (send_msg s dp m)) = sent s @ (if dp_send dp m = None then [(dp_id dp, m)] else [])"
  by (simp add: send_msg_def split: option.splits)

lemma ensure_meter_present:
  "(dp_id dp, mid) \<in> meter_installed s \<Longrightarrow> ensure_meter s dp mid r = (Inr (), s)"
  by (simp add: ensure_meter_def)


lemma ensure_meter_accepted:
  "(dp_id dp, mid) \<notin> meter_installed s \<Longrightarrow> dp_send dp (meter_add mid r) = None \<Longrightarrow>
     fst (ensure_meter s dp mid r) = Inr ()
     \<and> sent (snd (ensure_meter s dp mid r)) = sent s @ [(dp_id dp, meter_add mid r)]
     \<and> meter_installed (snd (ensure_meter s dp mid r)) = insert (dp_id dp, mid) (meter_installed s)
     \<and> logged (snd (ensure_meter s dp mid r)) = logged s @ [LogMeterCreated (dp_id dp) mid r]"
  by (simp add: ensure_meter_def send_msg_def log_info_def)

text \<open>What the meter branch of enforcement sends and records, for every behaviour of the handle.\<close>

lemma enforce_meter_sent:
  "sent (snd (enforce_action s dp p ACT_METER)) = sent s @
     (if (dp_id dp, meter_id_of p) \<in> meter_installed s then []
      else if dp_send dp (meter_add (meter_id_of p) DEFAULT_LIMIT_KBPS) = None
           then [(dp_id dp, meter_add (meter_id_of p) DEFAULT_LIMIT_KBPS)] else []) @
     (if ((dp_id dp, meter_id_of p) \<in> meter_installed s
          \<or> dp_send dp (meter_add (meter_id_of p) DEFAULT_LIMIT_KBPS) = None)
         \<and> dp_send dp (meter_flow p (meter_id_of p)) = None
      then [(dp_id dp, meter_flow p (meter_id_of p))] else [])"
  by (simp add: enforce_action_def ACT_METER_def ensure_meter_def send_msg_def log_info_def Let_def
      split: option.splits)

lemma enforce_meter_installed:
  "meter_installed (snd (enforce_action s dp p ACT_METER)) =
     (if dp_send dp (meter_add (meter_id_of p) DEFAULT_LIMIT_KBPS) = None
      then insert (dp_id dp, meter_id_of p) (meter_installed s) else meter_installed s)"
  by (auto simp add: enforce_action_def ACT_METER_def ensure_meter_def send_msg_def log_info_def Let_def
      split: option.splits)

lemma is_meter_mod_msgs [simp]:
  "is_meter_mod (meter_add mid r)" "\<not> is_meter_mod (meter_flow p mid)"
  "\<not> is_meter_mod (drop_flow p)" "\<not> is_meter_mod (reroute_flow p)"
  by (simp_all add: meter_add_def meter_flow_def drop_flow_def reroute_flow_def)

lemma twice_meter_sent:
  "dp_id dp' = dp_id dp \<Longrightarrow>
   length (filter (\<lambda>x. is_meter_mod (snd x))
     (emitted s (snd (enforce_action (snd (enforce_action s dp p ACT_METER)) dp' p ACT_METER)))) \<le> 1"
  by (simp add: emitted_def enforce_meter_sent enforce_meter_installed)

lemma enforce_drop_sent:
  "sent (snd (enforce_action s dp p ACT_DROP)) = sent s @
     (if dp_send dp (drop_flow p) = None then [(dp_id dp, drop_flow p)] else [])"
  by (simp add: enforce_action_def ACT_DROP_def send_msg_def log_info_def split: option.splits)

lemma enforce_reroute_sent:
  "sent (snd (enforce_action s dp p ACT_REROUTE)) = sent s @
     (if dp_send dp (reroute_flow p) = None then [(dp_id dp, reroute_flow p)] else [])"
  by (simp add: enforce_action_def ACT_REROUTE_def send_msg_def log_info_def split: option.splits)

lemma install_table_miss_sent:
  "sent (snd (install_table_miss s dp)) = sent s @
     (if dp_send dp table_miss_flow = None then [(dp_id dp, table_miss_flow)] else [])"
  by (simp add: install_table_miss_def send_msg_sent)

lemma flow_priority_msgs [simp]:
  "flow_priority (drop_flow p) = Some 400"
  "flow_priority (meter_flow p mid) = Some 300"
  "flow_priority (reroute_flow p) = Some 200"
  "flow_priority (unicast_flow p dst src acts) = Some 1"
  "flow_priority table_miss_flow = Some 0"
  "flow_priority (meter_add mid r) = None"
  "flow_priority (packet_out_msg msg acts) = None"
  by (simp_all add: drop_flow_def meter_flow_def reroute_flow_def unicast_flow_def
      table_miss_flow_def meter_add_def packet_out_msg_def)

lemma drop_priority:
  "(i, m) \<in> set (emitted s (snd (enforce_action s dp p ACT_DROP))) \<Longrightarrow>
     flow_priority m = Some pr \<Longrightarrow> pr = 400"
  by (auto simp add: emitted_def enforce_drop_sent split: if_splits)

lemma meter_priority:
  "(i, m) \<in> set (emitted s (snd (enforce_action s dp p ACT_METER))) \<Longrightarrow>
     flow_priority m = Some pr \<Longrightarrow> pr = 300"
  by (auto simp add: emitted_def enforce_meter_sent split: if_splits)

lemma reroute_priority:
  "(i, m) \<in> set (emitted s (snd (enforce_action s dp p ACT_REROUTE))) \<Longrightarrow>
     flow_priority m = Some pr \<Longrightarrow> pr = 200"
  by (auto simp add: emitted_def enforce_reroute_sent split: if_splits)

lemma table_miss_priority:
  "(i, m) \<in> set (emitted s (snd (install_table_miss s dp))) \<Longrightarrow>
     flow_priority m = Some pr \<Longrightarrow> pr = 0"
  by (auto simp add: emitted_def install_table_miss_sent split: if_splits)

lemma packet_in_sent:
  "\<exists>xs. sent (snd (packet_in_handler s msg)) = sent s @ xs
     \<and> (\<forall>x \<in> set xs. \<forall>pr. flow_priority (snd x) = Some pr \<longrightarrow> pr = 1)"
proof (cases "pi_eths msg")
  case Nil
  then show ?thesis by (simp add: packet_in_handler_def)
next
  case (Cons eth rest)
  show ?thesis
  proof (cases "ethertype eth = ETH_TYPE_LLDP")
    case True
    with Cons show ?thesis by (simp add: packet_in_handler_def)
  next
    case False
    with Cons show ?thesis
      by (simp add: packet_in_handler_def Let_def send_msg_def split: option.splits)
  qed
qed

lemma unicast_priority:
  "(i, m) \<in> set (emitted s (snd (packet_in_handler s msg))) \<Longrightarrow>
     flow_priority m = Some pr \<Longrightarrow> pr = 1"
  using packet_in_sent[of s msg] by (fastforce simp add: emitted_def)

lemma ex_back_sent:
  "emitted ex_learned (snd (packet_in_handler ex_learned ex_pkt_back)) =
     [(1, unicast_flow 4 ''00:00:00:00:00:01'' ''00:00:00:00:00:02'' [OFPActionOutput 3 None]),
      (1, packet_out_msg ex_pkt_back [OFPActionOutput 3 None])]"
  by (simp add: emitted_def packet_in_handler_def ex_pkt_back_def ex_learned_fields ex_dp_def
      send_msg_def Let_def ETH_TYPE_LLDP_def OFPP_FLOOD_def)

section \<open>Failures of enforcement\<close>










section \<open>The rates handed to the agent, and the offline rates\<close>

lemma stats_step_new_calls:
  "\<exists>cs. agent_calls (stats_step q now dp s st) = agent_calls s @ cs \<and> list_all rates_nonneg cs"
  by (simp add: stats_step_def Let_def try_enforce_frame log_info_def rates_nonneg_def
      bps_nonneg interval_dt_pos split: option.splits)

lemma stats_loop_new_calls:
  "\<exists>cs. agent_calls (foldl (stats_step q now dp) s body) = agent_calls s @ cs
     \<and> list_all rates_nonneg cs"
proof (induction body arbitrary: s)
  case Nil
  then show ?case by simp
next
  case (Cons x xs)
  obtain c1 where c1: "agent_calls (stats_step q now dp s x) = agent_calls s @ c1"
      "list_all rates_nonneg c1"
    using stats_step_new_calls[of q now dp s x] by blast
  obtain c2 where c2: "agent_calls (foldl (stats_step q now dp) (stats_step q now dp s x) xs) =
      agent_calls (stats_step q now dp s x) @ c2" "list_all rates_nonneg c2"
    using Cons.IH[of "stats_step q now dp s x"] by blast
  from c1 c2 have "agent_calls (foldl (stats_step q now dp) s (x # xs)) = agent_calls s @ (c1 @ c2)
      \<and> list_all rates_nonneg (c1 @ c2)"
    by simp
  then show ?case by blast
qed

lemma handler_new_calls_nonneg:
  "list_all rates_nonneg
     (drop (length (agent_calls s)) (agent_calls (port_stats_reply_handler q s ev)))"
proof -
  obtain cs where "agent_calls (foldl (stats_step q (sr_now ev) (sr_datapath ev)) s (sr_body ev)) =
      agent_calls s @ cs" "list_all rates_nonneg cs"
    using stats_loop_new_calls by blast
  then show ?thesis
    by (simp add: port_stats_reply_handler_def Let_def log_info_def)
qed

lemma group_features_pair:
  "0 < lr_timestamp cur - lr_timestamp prev \<Longrightarrow>
   lr_tx_bytes prev \<le> lr_tx_bytes cur \<Longrightarrow> lr_rx_bytes prev \<le> lr_rx_bytes cur \<Longrightarrow>
   lr_tx_packets prev \<le> lr_tx_packets cur \<Longrightarrow> lr_rx_packets prev \<le> lr_rx_packets cur \<Longrightarrow>
     map (\<lambda>f. (f_tx_bps f, f_rx_bps f)) (group_features None [prev, cur]) =
       [(real_of_int (lr_tx_bytes cur - lr_tx_bytes prev) * 8 / (lr_timestamp cur - lr_timestamp prev),
         real_of_int (lr_rx_bytes cur - lr_rx_bytes prev) * 8 / (lr_timestamp cur - lr_timestamp prev))]"
  by (simp add: Let_def)

section \<open>The claims\<close>







text \<open>
  C5. When the transmit-byte or the receive-byte counter of a port is lower than in the
  previous sample, the round changes nothing but the stored sample: the agent is not
  called, nothing is sent or logged, and the current sample becomes the previous one. And
  the stats-reply handler never calls the agent with a negative rate: every call that a
  run of the handler adds to the record has non-negative rates.
\<close>

theorem counter_reset_skips_decision:
  "(last_stats s (dp_id dp, ps_port_no st) = Some prev
      \<and> (ps_tx_bytes st < tx_bytes prev \<or> ps_rx_bytes st < rx_bytes prev) \<longrightarrow>
     stats_step q now dp s st =
       s\<lparr>last_stats := (last_stats s)((dp_id dp, ps_port_no st) \<mapsto> cur_sample now (dp_id dp) st)\<rparr>)
   \<and> list_all rates_nonneg
        (drop (length (agent_calls s)) (agent_calls (port_stats_reply_handler q s ev)))"
  using stats_step_reset[of s dp st prev q now] handler_new_calls_nonneg[of s q ev] by blast

text \<open>
  C5 on the concrete run: the receive counter falls from 1000 to 500, and the handler run
  that does call the agent.
\<close>

theorem counter_reset_skips_decision_witness:
  "last_stats ex_sampled (dp_id ex_dp, ps_port_no (ex_stat 500 10000)) =
       Some (cur_sample 0 1 (ex_stat 1000 2000))
   \<and> (ps_tx_bytes (ex_stat 500 10000) < tx_bytes (cur_sample 0 1 (ex_stat 1000 2000))
       \<or> ps_rx_bytes (ex_stat 500 10000) < rx_bytes (cur_sample 0 1 (ex_stat 1000 2000)))
   \<and> stats_step (always ACT_DROP) 1 ex_dp ex_sampled (ex_stat 500 10000) =
       ex_sampled\<lparr>last_stats := (last_stats ex_sampled)((1, 3) \<mapsto> cur_sample 1 1 (ex_stat 500 10000))\<rparr>
   \<and> list_all rates_nonneg (drop (length (agent_calls ex_sampled))
        (agent_calls (port_stats_reply_handler (always ACT_DROP) ex_sampled
           (ex_reply ex_dp 1 (ex_stat 9000 10000)))))"
  using counter_reset_skips_decision [of ex_sampled ex_dp "ex_stat 500 10000"
          "cur_sample 0 1 (ex_stat 1000 2000)" "always ACT_DROP" 1
          "ex_reply ex_dp 1 (ex_stat 9000 10000)"]
  by (simp add: ex_sampled_fields ex_dp_def ex_stat_def cur_sample_def)

text \<open>
  C1 (amended). The stats-reply handler and the enforcement operation work on the switch
  handle that comes with the event and never look the switch up in the registry of live
  connections: run from a state whose registry has been replaced by any other, they send
  the same messages and make the same changes. Unregistering a switch therefore does not
  stop a stats reply or an enforcement request for it from sending flow or meter mutations.
\<close>

theorem registry_not_consulted:
  "port_stats_reply_handler q (s\<lparr>datapaths := d\<rparr>) ev =
     (port_stats_reply_handler q s ev)\<lparr>datapaths := d\<rparr>
   \<and> enforce_action (s\<lparr>datapaths := d\<rparr>) dp p a =
     (fst (enforce_action s dp p a), (snd (enforce_action s dp p a))\<lparr>datapaths := d\<rparr>)"
  by (simp add: port_stats_reply_handler_def stats_loop_registry datapaths_outwards Let_def
      enforce_action_registry)

text \<open>
  C1 as stated fails: switch 1 is registered, its disconnect is handled and removes it from
  the registry; a stats reply for it that is processed afterwards, the agent answering
  DROP, sends a drop flow to the handle, and an enforcement request for it sends a flow too,
  while the registry holds no entry for switch 1.
\<close>

theorem unregistered_switch_counterexample:
  "datapaths ex_limited 1 = Some ex_dp
   \<and> ex_dead = state_change_handler ex_limited ex_dp DEAD_DISPATCHER
   \<and> datapaths ex_dead 1 = None
   \<and> emitted ex_dead (port_stats_reply_handler (always ACT_DROP) ex_dead
        (ex_reply ex_dp 2 (ex_stat 9500 10500))) = [(1, drop_flow 3)]
   \<and> is_mutation (drop_flow 3)
   \<and> datapaths (port_stats_reply_handler (always ACT_DROP) ex_dead
        (ex_reply ex_dp 2 (ex_stat 9500 10500))) 1 = None
   \<and> emitted ex_dead (snd (enforce_action ex_dead ex_dp 3 ACT_REROUTE)) = [(1, reroute_flow 3)]
   \<and> is_mutation (reroute_flow 3)"
proof (intro conjI)
  show "ex_dead = state_change_handler ex_limited ex_dp DEAD_DISPATCHER"
    by (rule ex_dead_def)
qed (simp_all add: ex_dead_fields ex_limited_fields
      port_stats_reply_handler_def ex_reply_def
      stats_step_def try_enforce_def enforce_action_def send_msg_def
      log_info_def Let_def interval_dt_def bps_def act_def always_def ACT_DROP_def ACT_REROUTE_def
      emitted_def is_mutation_def drop_flow_def reroute_flow_def
      ex_dp_def ex_stat_def cur_sample_def)

text \<open>
  C2 (amended). Handling the disconnect event of a switch removes its entry from the
  registry of connections, and leaves the MAC-to-port table, the last-sample store and the
  set of installed meters as they were.
\<close>

theorem disconnect_purges_registry_only:
  "datapaths (state_change_handler s dp DEAD_DISPATCHER) (dp_id dp) = None
   \<and> mac_to_port (state_change_handler s dp DEAD_DISPATCHER) = mac_to_port s
   \<and> last_stats (state_change_handler s dp DEAD_DISPATCHER) = last_stats s
   \<and> meter_installed (state_change_handler s dp DEAD_DISPATCHER) = meter_installed s"
  by simp

text \<open>
  C2 as stated fails: after the disconnect of switch 1 has been handled, the MAC-to-port
  table still has an entry for switch 1, the last-sample store an entry for its port 3 and
  the set of installed meters its meter 1003.
\<close>

theorem disconnect_leaves_state_counterexample:
  "ex_dead = state_change_handler ex_limited ex_dp DEAD_DISPATCHER
   \<and> dp_id ex_dp = 1
   \<and> datapaths ex_dead 1 = None
   \<and> mac_to_port ex_dead 1 \<noteq> None
   \<and> last_stats ex_dead (1, 3) \<noteq> None
   \<and> (1, 1003) \<in> meter_installed ex_dead"
proof (intro conjI)
  show "ex_dead = state_change_handler ex_limited ex_dp DEAD_DISPATCHER"
    by (rule ex_dead_def)
qed (simp_all add: ex_dead_fields ex_dp_def)

text \<open>
  C9. For every switch and port, enforcing the NOOP action returns normally, sends nothing
  and leaves the whole state of the controller as it was, installed meters included.
\<close>

theorem noop_is_identity:
  "enforce_action s dp in_port ACT_NOOP = (Inr (), s)"
  by (simp add: enforce_action_def ACT_NOOP_def)

text \<open>
  C10. For every switch and port and every action identifier other than 0, 1, 2 and 3,
  enforcement returns normally, sends nothing and leaves the state of the controller as it
  was.
\<close>

theorem unknown_action_is_identity:
  "a \<notin> {0, 1, 2, 3} \<Longrightarrow> enforce_action s dp in_port a = (Inr (), s)"
  by (simp add: enforce_action_def)

text \<open>C10 at the action identifiers 7 and -1.\<close>

theorem unknown_action_is_identity_witness:
  "(7::int) \<notin> {0, 1, 2, 3} \<and> enforce_action ex_limited ex_dp 3 7 = (Inr (), ex_limited)
   \<and> (-1::int) \<notin> {0, 1, 2, 3} \<and> enforce_action ex_limited ex_dp 3 (-1) = (Inr (), ex_limited)"
  using unknown_action_is_identity [of 7 ex_limited ex_dp 3]
        unknown_action_is_identity [of "-1" ex_limited ex_dp 3]
  by simp

text \<open>
  C6. The meter identifier of a port is 1000 plus the port number. Enforcing the rate limit
  twice for the same port of the same switch, starting without that meter and on a handle
  that accepts the messages, sends one meter-create message, followed by the metered flow
  of the first call and the metered flow of the second: exactly one create. A meter that is
  recorded as installed for the switch is never created again, and whatever the handles of
  the two calls do, the two calls together send at most one create.
\<close>

theorem meter_created_once:
  "meter_id_of p = 1000 + p
   \<and> ((dp_id dp, meter_id_of p) \<notin> meter_installed s
       \<and> dp_send dp (meter_add (meter_id_of p) DEFAULT_LIMIT_KBPS) = None
       \<and> dp_send dp (meter_flow p (meter_id_of p)) = None \<longrightarrow>
      emitted s (snd (enforce_action (snd (enforce_action s dp p ACT_METER)) dp p ACT_METER)) =
        [(dp_id dp, meter_add (meter_id_of p) DEFAULT_LIMIT_KBPS),
         (dp_id dp, meter_flow p (meter_id_of p)), (dp_id dp, meter_flow p (meter_id_of p))]
      \<and> length (filter (\<lambda>x. is_meter_mod (snd x))
           (emitted s (snd (enforce_action (snd (enforce_action s dp p ACT_METER)) dp p ACT_METER)))) = 1)
   \<and> ((dp_id dp, mid) \<in> meter_installed s \<longrightarrow> ensure_meter s dp mid r = (Inr (), s))
   \<and> (dp_id dp' = dp_id dp \<longrightarrow>
        length (filter (\<lambda>x. is_meter_mod (snd x))
          (emitted s (snd (enforce_action (snd (enforce_action s dp p ACT_METER)) dp' p ACT_METER)))) \<le> 1)"
proof (intro conjI impI)
  show "meter_id_of p = 1000 + p" by (simp add: meter_id_of_def)
next
  assume a: "(dp_id dp, meter_id_of p) \<notin> meter_installed s
       \<and> dp_send dp (meter_add (meter_id_of p) DEFAULT_LIMIT_KBPS) = None
       \<and> dp_send dp (meter_flow p (meter_id_of p)) = None"
  then show e: "emitted s (snd (enforce_action (snd (enforce_action s dp p ACT_METER)) dp p ACT_METER)) =
        [(dp_id dp, meter_add (meter_id_of p) DEFAULT_LIMIT_KBPS),
         (dp_id dp, meter_flow p (meter_id_of p)), (dp_id dp, meter_flow p (meter_id_of p))]"
    by (simp add: emitted_def enforce_meter_sent enforce_meter_installed)
  show "length (filter (\<lambda>x. is_meter_mod (snd x))
           (emitted s (snd (enforce_action (snd (enforce_action s dp p ACT_METER)) dp p ACT_METER)))) = 1"
    by (simp add: e)
next
  assume "(dp_id dp, mid) \<in> meter_installed s"
  then show "ensure_meter s dp mid r = (Inr (), s)" by (rule ensure_meter_present)
next
  assume "dp_id dp' = dp_id dp"
  then show "length (filter (\<lambda>x. is_meter_mod (snd x))
          (emitted s (snd (enforce_action (snd (enforce_action s dp p ACT_METER)) dp' p ACT_METER)))) \<le> 1"
    by (rule twice_meter_sent)
qed


text \<open>
  C6 on port 3 of switch 1: meter 1003 is created once by two calls, and the run in which
  it is already installed creates nothing.
\<close>

theorem meter_created_once_witness:
  "meter_id_of 3 = 1003
   \<and> (dp_id ex_dp, meter_id_of 3) \<notin> meter_installed ex_sampled
   \<and> dp_send ex_dp (meter_add (meter_id_of 3) DEFAULT_LIMIT_KBPS) = None
   \<and> dp_send ex_dp (meter_flow 3 (meter_id_of 3)) = None
   \<and> emitted ex_sampled
        (snd (enforce_action (snd (enforce_action ex_sampled ex_dp 3 ACT_METER)) ex_dp 3 ACT_METER)) =
        [(1, meter_add 1003 5000), (1, meter_flow 3 1003), (1, meter_flow 3 1003)]
   \<and> length (filter (\<lambda>x. is_meter_mod (snd x)) (emitted ex_sampled
        (snd (enforce_action (snd (enforce_action ex_sampled ex_dp 3 ACT_METER)) ex_dp 3 ACT_METER)))) = 1
   \<and> (dp_id ex_dp, 1003) \<in> meter_installed ex_limited
   \<and> ensure_meter ex_limited ex_dp 1003 5000 = (Inr (), ex_limited)
   \<and> dp_id ex_dp_noflow = dp_id ex_dp
   \<and> length (filter (\<lambda>x. is_meter_mod (snd x)) (emitted ex_sampled
        (snd (enforce_action (snd (enforce_action ex_sampled ex_dp 3 ACT_METER)) ex_dp_noflow 3 ACT_METER)))) \<le> 1"
  using meter_created_once [of 3 ex_dp ex_sampled 1003 5000 ex_dp_noflow]
        meter_created_once [of 3 ex_dp ex_limited 1003 5000 ex_dp_noflow]
  by (simp add: ex_sampled_fields ex_limited_fields ex_dp_def ex_dp_noflow_def meter_id_of_def
      DEFAULT_LIMIT_KBPS_def)

text \<open>
  C7. Every flow that enforcement sends for DROP has a higher priority than every flow it
  sends for the rate limit, which has a higher priority than every flow it sends for
  REROUTE, which has a higher priority than every unicast flow of the learning switch and
  than the table-miss flow (the priorities are 400, 300, 200, 1 and 0).
\<close>

theorem mitigation_priorities_ordered:
  "((i1, md) \<in> set (emitted s1 (snd (enforce_action s1 dp1 p1 ACT_DROP)))
      \<and> flow_priority md = Some pd
      \<and> (i2, mm) \<in> set (emitted s2 (snd (enforce_action s2 dp2 p2 ACT_METER)))
      \<and> flow_priority mm = Some pm \<longrightarrow> pm < pd)
   \<and> ((i2, mm) \<in> set (emitted s2 (snd (enforce_action s2 dp2 p2 ACT_METER)))
      \<and> flow_priority mm = Some pm
      \<and> (i3, mr) \<in> set (emitted s3 (snd (enforce_action s3 dp3 p3 ACT_REROUTE)))
      \<and> flow_priority mr = Some pr \<longrightarrow> pr < pm)
   \<and> ((i3, mr) \<in> set (emitted s3 (snd (enforce_action s3 dp3 p3 ACT_REROUTE)))
      \<and> flow_priority mr = Some pr
      \<and> (i4, mu) \<in> set (emitted s4 (snd (packet_in_handler s4 msg)))
      \<and> flow_priority mu = Some pu \<longrightarrow> pu < pr)
   \<and> ((i3, mr) \<in> set (emitted s3 (snd (enforce_action s3 dp3 p3 ACT_REROUTE)))
      \<and> flow_priority mr = Some pr
      \<and> (i5, mt) \<in> set (emitted s5 (snd (install_table_miss s5 dp5)))
      \<and> flow_priority mt = Some pt \<longrightarrow> pt < pr)"
  using drop_priority[of i1 md s1 dp1 p1 pd] meter_priority[of i2 mm s2 dp2 p2 pm]
        reroute_priority[of i3 mr s3 dp3 p3 pr] unicast_priority[of i4 mu s4 msg pu]
        table_miss_priority[of i5 mt s5 dp5 pt]
  by auto



text \<open>C7 on the flows of the concrete run, one of each kind.\<close>

theorem mitigation_priorities_ordered_witness:
  "(1, drop_flow 3) \<in> set (emitted ex_sampled (snd (enforce_action ex_sampled ex_dp 3 ACT_DROP)))
   \<and> flow_priority (drop_flow 3) = Some 400
   \<and> (1, meter_flow 3 1003) \<in> set (emitted ex_sampled (snd (enforce_action ex_sampled ex_dp 3 ACT_METER)))
   \<and> flow_priority (meter_flow 3 1003) = Some 300
   \<and> (1, reroute_flow 3) \<in> set (emitted ex_sampled (snd (enforce_action ex_sampled ex_dp 3 ACT_REROUTE)))
   \<and> flow_priority (reroute_flow 3) = Some 200
   \<and> (1, unicast_flow 4 ''00:00:00:00:00:01'' ''00:00:00:00:00:02'' [OFPActionOutput 3 None])
        \<in> set (emitted ex_learned (snd (packet_in_handler ex_learned ex_pkt_back)))
   \<and> flow_priority (unicast_flow 4 ''00:00:00:00:00:01'' ''00:00:00:00:00:02''
        [OFPActionOutput 3 None]) = Some 1
   \<and> (1, table_miss_flow) \<in> set (emitted init_controller (snd (install_table_miss init_controller ex_dp)))
   \<and> flow_priority table_miss_flow = Some 0
   \<and> (300::int) < 400 \<and> (200::int) < 300 \<and> (1::int) < 200 \<and> (0::int) < 200"
  using mitigation_priorities_ordered [of 1 "drop_flow 3" ex_sampled ex_dp 3 400
          1 "meter_flow 3 1003" ex_sampled ex_dp 3 300
          1 "reroute_flow 3" ex_sampled ex_dp 3 200
          1 "unicast_flow 4 ''00:00:00:00:00:01'' ''00:00:00:00:00:02'' [OFPActionOutput 3 None]"
          ex_learned ex_pkt_back 1
          1 table_miss_flow init_controller ex_dp 0]
  by (simp add: ex_back_sent [unfolded emitted_def] emitted_def enforce_drop_sent enforce_meter_sent enforce_reroute_sent
      install_table_miss_sent ex_sampled_fields ex_dp_def meter_id_of_def DEFAULT_LIMIT_KBPS_def)





end
